theory Spec2Isabelle
  imports Main "HOL-Library.Word"
begin

unbundle bit_operations_syntax

section \<open>Signals\<close>

text \<open>
  The Sampo RTL is an Amaranth design. A \<open>Signal(n)\<close> is an \<open>n word\<close>, a one-bit signal a
  \<open>bool\<close>. A Python slice \<open>x[lo:hi]\<close> of a signal is \<open>ucast (drop_bit lo x)\<close> at the
  width \<open>hi - lo\<close>; \<open>as_signed()\<close> followed by an assignment to a wider signal is
  \<open>scast\<close>, a plain assignment to a wider signal is \<open>ucast\<close>, and an assignment to a
  narrower one keeps the low bits. Within one clock domain the last active assignment
  to a signal wins.
\<close>

type_synonym u2 = "2 word"
type_synonym u3 = "3 word"
type_synonym u4 = "4 word"
type_synonym u8 = "8 word"
type_synonym u16 = "16 word"
type_synonym u17 = "17 word"
type_synonym u32 = "32 word"

section \<open>ALU (alu.py)\<close>

datatype ALUOp =
    ALUOp_ADD | ALUOp_SUB | ALUOp_AND | ALUOp_OR | ALUOp_XOR
  | ALUOp_SLL | ALUOp_SRL | ALUOp_SRA
  | ALUOp_MUL | ALUOp_MULH | ALUOp_DIV | ALUOp_REM
  | ALUOp_PASS_A | ALUOp_PASS_B | ALUOp_NOT | ALUOp_NEG

record alu_in =
  a :: u16
  b :: u16
  op :: ALUOp
  carry_in :: bool
  shift_amt :: u4

record alu_out =
  result :: u16
  flag_n :: bool
  flag_z :: bool
  flag_c :: bool
  flag_v :: bool

text \<open>\<open>mul_result\<close>: the 32-bit signed product; \<open>mul_result_u\<close>: the 32-bit unsigned
  product, which no case of the operation switch reads.\<close>

definition mul_result :: "alu_in \<Rightarrow> u32" where
  "mul_result i = word_of_int (sint (a i) * sint (b i))"

definition mul_result_u :: "alu_in \<Rightarrow> u32" where
  "mul_result_u i = ucast (a i) * ucast (b i)"

text \<open>The 17-bit \<open>result_wide\<close>. Amaranth's \<open>//\<close> and \<open>%\<close> are Python's floor division
  and modulo; the quotient of two signed 16-bit values is a signed 17-bit value, the
  remainder a signed 16-bit one, both taken \<open>as_unsigned()\<close>.\<close>

definition result_wide :: "alu_in \<Rightarrow> u17" where
  "result_wide i =
    (case op i of
       ALUOp_ADD \<Rightarrow> ucast (a i) + ucast (b i)
     | ALUOp_SUB \<Rightarrow> ucast (a i) - ucast (b i)
     | ALUOp_AND \<Rightarrow> ucast (a i AND b i)
     | ALUOp_OR \<Rightarrow> ucast (a i OR b i)
     | ALUOp_XOR \<Rightarrow> ucast (a i XOR b i)
     | ALUOp_SLL \<Rightarrow> push_bit (unat (shift_amt i)) (ucast (a i))
     | ALUOp_SRL \<Rightarrow> ucast (drop_bit (unat (shift_amt i)) (a i))
     | ALUOp_SRA \<Rightarrow> scast (signed_drop_bit (unat (shift_amt i)) (a i))
     | ALUOp_MUL \<Rightarrow> ucast (ucast (mul_result i) :: u16)
     | ALUOp_MULH \<Rightarrow> ucast (ucast (drop_bit 16 (mul_result i)) :: u16)
     | ALUOp_DIV \<Rightarrow>
         (if b i \<noteq> 0 then word_of_int (sint (a i) div sint (b i)) else 0xFFFF)
     | ALUOp_REM \<Rightarrow>
         (if b i \<noteq> 0 then ucast (word_of_int (sint (a i) mod sint (b i)) :: u16)
          else ucast (a i))
     | ALUOp_PASS_A \<Rightarrow> ucast (a i)
     | ALUOp_PASS_B \<Rightarrow> ucast (b i)
     | ALUOp_NOT \<Rightarrow> ucast (NOT (b i))
     | ALUOp_NEG \<Rightarrow> word_of_int (- sint (b i)))"

definition alu_result_of :: "alu_in \<Rightarrow> u16" where
  "alu_result_of i = ucast (result_wide i)"

definition alu_flag_v :: "alu_in \<Rightarrow> bool" where
  "alu_flag_v i =
    (let a_sign = bit (a i) 15; b_sign = bit (b i) 15; r_sign = bit (alu_result_of i) 15
     in case op i of
          ALUOp_ADD \<Rightarrow> (a_sign = b_sign) \<and> (a_sign \<noteq> r_sign)
        | ALUOp_SUB \<Rightarrow> (a_sign \<noteq> b_sign) \<and> (r_sign \<noteq> a_sign)
        | _ \<Rightarrow> False)"

definition ALU :: "alu_in \<Rightarrow> alu_out" where
  "ALU i =
    \<lparr> result = alu_result_of i,
      flag_n = bit (alu_result_of i) 15,
      flag_z = (alu_result_of i = 0),
      flag_c = bit (result_wide i) 16,
      flag_v = alu_flag_v i \<rparr>"

section \<open>Shifter (alu.py)\<close>

record shifter_out =
  sh_result :: u16
  carry_out :: bool

text \<open>\<open>Cat\<close> lists its parts from the low bits up.\<close>

definition Shifter :: "u16 \<Rightarrow> u4 \<Rightarrow> bool \<Rightarrow> shifter_out" where
  "Shifter v func cin =
    (if func = 0x0 then \<lparr> sh_result = push_bit 1 v, carry_out = bit v 15 \<rparr>
     else if func = 0x1 then \<lparr> sh_result = drop_bit 1 v, carry_out = bit v 0 \<rparr>
     else if func = 0x2 then
       \<lparr> sh_result = drop_bit 1 v OR (if bit v 15 then 0x8000 else 0), carry_out = bit v 0 \<rparr>
     else if func = 0x3 then
       \<lparr> sh_result = (if bit v 15 then 1 else 0) OR push_bit 1 (take_bit 15 v),
         carry_out = bit v 15 \<rparr>
     else if func = 0x4 then
       \<lparr> sh_result = drop_bit 1 v OR (if bit v 0 then 0x8000 else 0), carry_out = bit v 0 \<rparr>
     else if func = 0x5 then
       \<lparr> sh_result = (if cin then 1 else 0) OR push_bit 1 (take_bit 15 v),
         carry_out = bit v 15 \<rparr>
     else if func = 0x6 then
       \<lparr> sh_result = drop_bit 1 v OR (if cin then 0x8000 else 0), carry_out = bit v 0 \<rparr>
     else if func = 0x7 then
       \<lparr> sh_result = drop_bit 8 v OR push_bit 8 (take_bit 8 v), carry_out = False \<rparr>
     else if func = 0x8 then \<lparr> sh_result = push_bit 4 v, carry_out = bit v 12 \<rparr>
     else if func = 0x9 then \<lparr> sh_result = drop_bit 4 v, carry_out = bit v 3 \<rparr>
     else if func = 0xA then \<lparr> sh_result = signed_drop_bit 4 v, carry_out = bit v 3 \<rparr>
     else if func = 0xB then
       \<lparr> sh_result = push_bit 4 v OR drop_bit 12 v, carry_out = bit v 12 \<rparr>
     else if func = 0xC then \<lparr> sh_result = push_bit 8 v, carry_out = bit v 8 \<rparr>
     else if func = 0xD then \<lparr> sh_result = drop_bit 8 v, carry_out = bit v 7 \<rparr>
     else if func = 0xE then \<lparr> sh_result = signed_drop_bit 8 v, carry_out = bit v 7 \<rparr>
     else if func = 0xF then
       \<lparr> sh_result = push_bit 8 v OR drop_bit 8 v, carry_out = bit v 8 \<rparr>
     else \<lparr> sh_result = v, carry_out = False \<rparr>)"

section \<open>Register file (regfile.py)\<close>

text \<open>\<open>regs\<close> is the array of sixteen registers, indexed by a 4-bit address;
  \<open>regs_alt\<close> the array of eight alternate registers, \<open>regs_alt i\<close> standing for
  R'[i + 4].\<close>

record regfile =
  regs :: "u4 \<Rightarrow> u16"
  regs_alt :: "u3 \<Rightarrow> u16"

record regfile_wr =
  wr_addr :: u4
  wr_data :: u16
  wr_en :: bool
  exx :: bool

text \<open>A read port: address 0 bypasses the storage.\<close>

definition rd_data :: "regfile \<Rightarrow> u4 \<Rightarrow> u16" where
  "rd_data rf addr = (if addr = 0 then 0 else regs rf addr)"

text \<open>The clock edge. The write is assigned first; the EXX assignments to
  \<open>regs[4..11]\<close> come later in the same domain and win over it.\<close>

definition regfile_write :: "regfile \<Rightarrow> regfile_wr \<Rightarrow> u4 \<Rightarrow> u16" where
  "regfile_write rf w =
    (if wr_en w \<and> wr_addr w \<noteq> 0 then (regs rf)(wr_addr w := wr_data w) else regs rf)"

definition in_bank :: "u4 \<Rightarrow> bool" where
  "in_bank r = (4 \<le> unat r \<and> unat r \<le> 11)"

definition regfile_step :: "regfile \<Rightarrow> regfile_wr \<Rightarrow> regfile" where
  "regfile_step rf w =
    (if exx w then
       \<lparr> regs = (\<lambda>r. if in_bank r then regs_alt rf (ucast (r - 4)) else regfile_write rf w r),
         regs_alt = (\<lambda>i. regs rf (ucast i + 4)) \<rparr>
     else rf \<lparr> regs := regfile_write rf w \<rparr>)"

text \<open>A register-file operation as the CPU issues them: a write or an EXX pulse.\<close>

datatype regfile_op = Write u4 u16 bool | Exx

fun regfile_op_wr :: "regfile_op \<Rightarrow> regfile_wr" where
  "regfile_op_wr (Write ad d en) = \<lparr> wr_addr = ad, wr_data = d, wr_en = en, exx = False \<rparr>"
| "regfile_op_wr Exx = \<lparr> wr_addr = 0, wr_data = 0, wr_en = False, exx = True \<rparr>"

fun regfile_run :: "regfile \<Rightarrow> regfile_op list \<Rightarrow> regfile" where
  "regfile_run rf [] = rf"
| "regfile_run rf (x # xs) = regfile_run (regfile_step rf (regfile_op_wr x)) xs"

section \<open>Decoder (decode.py)\<close>

datatype InstType =
    ALU_REG | ALU_IMM | LOAD | STORE | BRANCH | JUMP | JUMP_REG | SHIFT
  | MULDIV | MISC | IO | SYSTEM | EXTENDED | INVALID

record decoder_out =
  inst_type :: InstType
  rd :: u4
  rs1 :: u4
  rs2 :: u4
  func :: u4
  imm8 :: u16
  imm16_out :: u16
  offset8 :: u16
  offset12 :: u16
  alu_op :: ALUOp
  shift_func :: u4
  branch_cond :: u4
  mem_load :: bool
  mem_store :: bool
  mem_byte :: bool
  mem_signed :: bool
  reg_write :: bool
  is_jump :: bool
  is_branch :: bool
  is_call :: bool
  is_ret :: bool
  is_extended :: bool
  is_halt :: bool
  is_nop :: bool
  is_exx :: bool
  is_ei :: bool
  is_di :: bool
  is_reti :: bool
  is_io_in :: bool
  is_io_out :: bool
  io_port_imm :: bool
  is_push :: bool
  is_pop :: bool

text \<open>The instruction fields.\<close>

definition f_opcode :: "u16 \<Rightarrow> u4" where
  "f_opcode instr = ucast (drop_bit 12 instr)"

definition f_rd :: "u16 \<Rightarrow> u4" where
  "f_rd instr = ucast (drop_bit 8 instr)"

definition f_rs1 :: "u16 \<Rightarrow> u4" where
  "f_rs1 instr = ucast (drop_bit 4 instr)"

definition f_rs2 :: "u16 \<Rightarrow> u4" where
  "f_rs2 instr = ucast instr"

definition f_func :: "u16 \<Rightarrow> u4" where
  "f_func instr = ucast instr"

definition imm8_raw :: "u16 \<Rightarrow> u8" where
  "imm8_raw instr = ucast instr"

definition offset12_raw :: "u16 \<Rightarrow> 12 word" where
  "offset12_raw instr = ucast instr"

text \<open>The field outputs, the sign extensions and the default control signals.\<close>

definition decoder_defaults :: "u16 \<Rightarrow> u16 \<Rightarrow> decoder_out" where
  "decoder_defaults instr imm16 =
    \<lparr> inst_type = INVALID,
      rd = f_rd instr,
      rs1 = f_rs1 instr,
      rs2 = f_rs2 instr,
      func = f_func instr,
      imm8 = scast (imm8_raw instr),
      imm16_out = imm16,
      offset8 = scast (imm8_raw instr),
      offset12 =
        (if bit (offset12_raw instr) 11 then ucast (offset12_raw instr) OR 0xF000
         else scast (offset12_raw instr)),
      alu_op = ALUOp_ADD,
      shift_func = f_func instr,
      branch_cond = f_rd instr,
      mem_load = False,
      mem_store = False,
      mem_byte = False,
      mem_signed = False,
      reg_write = False,
      is_jump = False,
      is_branch = False,
      is_call = False,
      is_ret = False,
      is_extended = False,
      is_halt = False,
      is_nop = False,
      is_exx = False,
      is_ei = False,
      is_di = False,
      is_reti = False,
      is_io_in = False,
      is_io_out = False,
      io_port_imm = False,
      is_push = False,
      is_pop = False \<rparr>"

text \<open>One definition for each case of the opcode switch.\<close>

definition decode_load :: "u4 \<Rightarrow> decoder_out \<Rightarrow> decoder_out" where
  "decode_load fn d =
    (let d = d \<lparr> inst_type := LOAD, mem_load := True, reg_write := True \<rparr>
     in if fn = 0x1 then d \<lparr> mem_byte := True, mem_signed := True \<rparr>
        else if fn = 0x2 then d \<lparr> mem_byte := True, mem_signed := False \<rparr>
        else if fn = 0x8 then d \<lparr> mem_load := False, inst_type := ALU_IMM \<rparr>
        else d)"

definition decode_store :: "u4 \<Rightarrow> decoder_out \<Rightarrow> decoder_out" where
  "decode_store fn d =
    (let d = d \<lparr> inst_type := STORE, mem_store := True \<rparr>
     in if fn = 0x1 then d \<lparr> mem_byte := True \<rparr> else d)"

definition decode_jump :: "u16 \<Rightarrow> decoder_out \<Rightarrow> decoder_out" where
  "decode_jump instr d =
    (if instr AND 0x0F0F = 0x0F00 then
       (let d = d \<lparr> inst_type := JUMP_REG, is_jump := True \<rparr>
        in if f_rs1 instr = 1 then d \<lparr> is_ret := True \<rparr> else d)
     else if f_func instr = 1 \<and> f_rd instr \<noteq> 0 then
       d \<lparr> inst_type := JUMP_REG, is_jump := True, is_call := True, reg_write := True \<rparr>
     else d \<lparr> inst_type := JUMP, is_jump := True \<rparr>)"

definition decode_muldiv :: "u4 \<Rightarrow> decoder_out \<Rightarrow> decoder_out" where
  "decode_muldiv fn d =
    (let d = d \<lparr> inst_type := MULDIV, reg_write := True \<rparr>
     in if fn = 0x0 then d \<lparr> alu_op := ALUOp_MUL \<rparr>
        else if fn = 0x1 then d \<lparr> alu_op := ALUOp_MULH \<rparr>
        else if fn = 0x3 then d \<lparr> alu_op := ALUOp_DIV \<rparr>
        else if fn = 0x5 then d \<lparr> alu_op := ALUOp_REM \<rparr>
        else d)"

definition decode_misc :: "u4 \<Rightarrow> decoder_out \<Rightarrow> decoder_out" where
  "decode_misc fn d =
    (let d = d \<lparr> inst_type := MISC \<rparr>
     in if fn = 0x0 then d \<lparr> is_push := True \<rparr>
        else if fn = 0x1 then d \<lparr> is_pop := True, reg_write := True \<rparr>
        else if fn = 0x2 then d \<lparr> alu_op := ALUOp_SUB \<rparr>
        else if fn = 0x3 then d \<lparr> alu_op := ALUOp_AND \<rparr>
        else if fn = 0x4 then d \<lparr> alu_op := ALUOp_PASS_B, reg_write := True \<rparr>
        else if fn = 0xB then d \<lparr> is_exx := True \<rparr>
        else if fn = 0xC then d \<lparr> reg_write := True \<rparr>
        else d)"

definition decode_io :: "u4 \<Rightarrow> decoder_out \<Rightarrow> decoder_out" where
  "decode_io fn d =
    (let d = d \<lparr> inst_type := IO \<rparr>
     in if fn = 0x0 then d \<lparr> is_io_in := True, io_port_imm := True, reg_write := True \<rparr>
        else if fn = 0x1 then d \<lparr> is_io_out := True, io_port_imm := True \<rparr>
        else if fn = 0x2 then d \<lparr> is_io_in := True, reg_write := True \<rparr>
        else if fn = 0x3 then d \<lparr> is_io_out := True \<rparr>
        else d)"

definition decode_system :: "u4 \<Rightarrow> decoder_out \<Rightarrow> decoder_out" where
  "decode_system r d =
    (let d = d \<lparr> inst_type := SYSTEM \<rparr>
     in if r = 0x0 then d \<lparr> is_nop := True \<rparr>
        else if r = 0x1 then d \<lparr> is_halt := True \<rparr>
        else if r = 0x2 then d \<lparr> is_di := True \<rparr>
        else if r = 0x3 then d \<lparr> is_ei := True \<rparr>
        else if r = 0x4 then d \<lparr> is_reti := True \<rparr>
        else d)"

definition decode_extended :: "u4 \<Rightarrow> decoder_out \<Rightarrow> decoder_out" where
  "decode_extended fn d =
    (let d = d \<lparr> inst_type := EXTENDED, is_extended := True \<rparr>
     in if fn = 0x0 then d \<lparr> alu_op := ALUOp_ADD, reg_write := True \<rparr>
        else if fn = 0x1 then d \<lparr> alu_op := ALUOp_SUB, reg_write := True \<rparr>
        else if fn = 0x2 then d \<lparr> alu_op := ALUOp_AND, reg_write := True \<rparr>
        else if fn = 0x3 then d \<lparr> alu_op := ALUOp_OR, reg_write := True \<rparr>
        else if fn = 0x4 then d \<lparr> alu_op := ALUOp_XOR, reg_write := True \<rparr>
        else if fn = 0x5 then d \<lparr> mem_load := True, reg_write := True \<rparr>
        else if fn = 0x6 then d \<lparr> mem_store := True \<rparr>
        else if fn = 0x7 then d \<lparr> alu_op := ALUOp_PASS_B, reg_write := True \<rparr>
        else if fn = 0x8 then d \<lparr> is_jump := True \<rparr>
        else if fn = 0x9 then d \<lparr> is_jump := True, is_call := True, reg_write := True \<rparr>
        else if fn = 0xA then d \<lparr> alu_op := ALUOp_SUB \<rparr>
        else if fn = 0xB then d \<lparr> is_io_in := True, io_port_imm := True, reg_write := True \<rparr>
        else if fn = 0xC then d \<lparr> is_io_out := True, io_port_imm := True \<rparr>
        else d)"

definition Decoder :: "u16 \<Rightarrow> u16 \<Rightarrow> decoder_out" where
  "Decoder instr imm16 =
    (let d = decoder_defaults instr imm16; opcode = f_opcode instr; fn = f_func instr
     in if opcode = 0x0 then
          d \<lparr> inst_type := ALU_REG, alu_op := ALUOp_ADD, reg_write := True \<rparr>
        else if opcode = 0x1 then
          d \<lparr> inst_type := ALU_REG, alu_op := ALUOp_SUB, reg_write := True \<rparr>
        else if opcode = 0x2 then
          d \<lparr> inst_type := ALU_REG, alu_op := ALUOp_AND, reg_write := True \<rparr>
        else if opcode = 0x3 then
          d \<lparr> inst_type := ALU_REG, alu_op := ALUOp_OR, reg_write := True \<rparr>
        else if opcode = 0x4 then
          d \<lparr> inst_type := ALU_REG, alu_op := ALUOp_XOR, reg_write := True \<rparr>
        else if opcode = 0x5 then
          d \<lparr> inst_type := ALU_IMM, alu_op := ALUOp_ADD, reg_write := True \<rparr>
        else if opcode = 0x6 then decode_load fn d
        else if opcode = 0x7 then decode_store fn d
        else if opcode = 0x8 then d \<lparr> inst_type := BRANCH, is_branch := True \<rparr>
        else if opcode = 0x9 then decode_jump instr d
        else if opcode = 0xA then d \<lparr> inst_type := SHIFT, reg_write := True \<rparr>
        else if opcode = 0xB then decode_muldiv fn d
        else if opcode = 0xC then decode_misc fn d
        else if opcode = 0xD then decode_io fn d
        else if opcode = 0xE then decode_system (f_rd instr) d
        else if opcode = 0xF then decode_extended fn d
        else d)"

section \<open>CPU engine (cpu.py)\<close>

datatype CPUState =
  RESET | FETCH | FETCH_EXT | DECODE | EXECUTE | MEMORY | WRITEBACK | HALTED

text \<open>The sequential state of \<open>SampoCPU\<close> and of its register file.\<close>

record cpu =
  reset_vector :: u16
  state :: CPUState
  pc :: u16
  flags :: u8
  cycles :: u32
  instr :: u16
  instr_ext :: u16
  alu_result :: u16
  mem_addr_reg :: u16
  mem_data_reg :: u16
  int_enabled :: bool
  int_pending :: bool
  rf :: regfile

record cpu_in =
  mem_rdata :: u16
  mem_ready :: bool
  io_rdata :: u8
  irq :: bool

record cpu_out =
  mem_addr :: u16
  mem_wdata :: u16
  mem_we :: bool
  mem_be :: u2
  mem_valid :: bool
  io_addr :: u8
  io_wdata :: u8
  io_rd :: bool
  io_wr :: bool
  halted :: bool

subsection \<open>Combinational signals\<close>

definition dec :: "cpu \<Rightarrow> decoder_out" where
  "dec s = Decoder (instr s) (instr_ext s)"

text \<open>\<open>regfile.rd_addr1\<close> is driven by \<open>decoder.rs1\<close>, overridden by \<open>decoder.rd\<close> for
  ALU_IMM and, in EXECUTE, for STORE, for an I/O output and for an extended store.\<close>

definition rd_addr1 :: "cpu \<Rightarrow> u4" where
  "rd_addr1 s =
    (let d = dec s
     in if state s = EXECUTE \<and> inst_type d = STORE then rd d
        else if state s = EXECUTE \<and> inst_type d = IO \<and> \<not> is_io_in d \<and> is_io_out d then rd d
        else if state s = EXECUTE \<and> inst_type d = EXTENDED
                \<and> (mem_load d \<or> mem_store d) \<and> mem_store d then rd d
        else if inst_type d = ALU_IMM then rd d
        else rs1 d)"

definition rd_data1 :: "cpu \<Rightarrow> u16" where
  "rd_data1 s = rd_data (rf s) (rd_addr1 s)"

definition rd_data2 :: "cpu \<Rightarrow> u16" where
  "rd_data2 s = rd_data (rf s) (rs2 (dec s))"

definition rs1_data :: "cpu \<Rightarrow> u16" where
  "rs1_data s = rd_data1 s"

definition rs2_data :: "cpu \<Rightarrow> u16" where
  "rs2_data s = rd_data2 s"

definition alu_a :: "cpu \<Rightarrow> u16" where
  "alu_a s = (if inst_type (dec s) = ALU_IMM then rd_data1 s else rs1_data s)"

definition alu_b :: "cpu \<Rightarrow> u16" where
  "alu_b s =
    (if inst_type (dec s) = ALU_IMM then imm8 (dec s)
     else if is_extended (dec s) then instr_ext s
     else rs2_data s)"

text \<open>The ALU instance: \<open>carry_in\<close> and \<open>shift_amt\<close> are never driven.\<close>

definition alu :: "cpu \<Rightarrow> alu_out" where
  "alu s = ALU \<lparr> a = alu_a s, b = alu_b s, op = alu_op (dec s),
                 carry_in = False, shift_amt = 0 \<rparr>"

definition shifter :: "cpu \<Rightarrow> shifter_out" where
  "shifter s = Shifter (rs1_data s) (shift_func (dec s)) (bit (flags s) 5)"

definition branch_taken :: "u4 \<Rightarrow> u8 \<Rightarrow> bool" where
  "branch_taken cond fl =
    (let flag_n = bit fl 7; flag_z = bit fl 6; flag_c = bit fl 5; flag_v = bit fl 4
     in if cond = 0x0 then flag_z
        else if cond = 0x1 then \<not> flag_z
        else if cond = 0x2 then flag_n \<noteq> flag_v
        else if cond = 0x3 then flag_n = flag_v
        else if cond = 0x4 then \<not> flag_c
        else if cond = 0x5 then flag_c
        else if cond = 0x6 then flag_n
        else if cond = 0x7 then \<not> flag_n
        else if cond = 0x8 then flag_v
        else if cond = 0x9 then \<not> flag_v
        else if cond = 0xA then flag_c
        else if cond = 0xB then \<not> flag_c
        else if cond = 0xC then \<not> flag_z \<and> (flag_n = flag_v)
        else if cond = 0xD then flag_z \<or> (flag_n \<noteq> flag_v)
        else if cond = 0xE then flag_c \<and> \<not> flag_z
        else if cond = 0xF then \<not> flag_c \<or> flag_z
        else False)"

definition pc_plus_2 :: "cpu \<Rightarrow> u16" where
  "pc_plus_2 s = pc s + 2"

definition pc_plus_4 :: "cpu \<Rightarrow> u16" where
  "pc_plus_4 s = pc s + 4"

definition pc_branch :: "cpu \<Rightarrow> u16" where
  "pc_branch s = pc s + push_bit 1 (offset8 (dec s))"

definition pc_jump :: "cpu \<Rightarrow> u16" where
  "pc_jump s = pc s + push_bit 1 (offset12 (dec s))"

text \<open>An assignment to one bit of \<open>flags\<close>.\<close>

definition set_flag :: "nat \<Rightarrow> bool \<Rightarrow> u8 \<Rightarrow> u8" where
  "set_flag n v fl = (if v then set_bit n fl else unset_bit n fl)"

definition flags_from_alu :: "alu_out \<Rightarrow> u8 \<Rightarrow> u8" where
  "flags_from_alu r fl =
    set_flag 4 (flag_v r) (set_flag 5 (flag_c r) (set_flag 6 (flag_z r) (set_flag 7 (flag_n r) fl)))"

subsection \<open>EXECUTE, one definition for each case of the instruction-type switch\<close>

text \<open>The assignments every EXECUTE cycle makes: the default PC and the cycle count.\<close>

definition exec_base :: "cpu \<Rightarrow> cpu" where
  "exec_base s =
    s \<lparr> pc := (if is_extended (dec s) then pc_plus_4 s else pc_plus_2 s),
        cycles := cycles s + 1 \<rparr>"

definition exec_alu :: "cpu \<Rightarrow> cpu" where
  "exec_alu s =
    (exec_base s) \<lparr> alu_result := result (alu s),
                    flags := flags_from_alu (alu s) (flags s),
                    state := WRITEBACK \<rparr>"

definition exec_load :: "cpu \<Rightarrow> cpu" where
  "exec_load s = (exec_base s) \<lparr> mem_addr_reg := rs1_data s, state := MEMORY \<rparr>"

definition exec_store :: "cpu \<Rightarrow> cpu" where
  "exec_store s =
    (exec_base s) \<lparr> mem_addr_reg := rs1_data s, mem_data_reg := rd_data1 s, state := MEMORY \<rparr>"

definition exec_branch :: "cpu \<Rightarrow> cpu" where
  "exec_branch s =
    (if branch_taken (branch_cond (dec s)) (flags s)
     then (exec_base s) \<lparr> pc := pc_branch s, state := FETCH \<rparr>
     else (exec_base s) \<lparr> state := FETCH \<rparr>)"

definition exec_jump :: "cpu \<Rightarrow> cpu" where
  "exec_jump s = (exec_base s) \<lparr> pc := pc_jump s, state := FETCH \<rparr>"

definition exec_jump_reg :: "cpu \<Rightarrow> cpu" where
  "exec_jump_reg s =
    (if is_call (dec s)
     then (exec_base s) \<lparr> pc := rs1_data s, alu_result := pc_plus_2 s, state := WRITEBACK \<rparr>
     else (exec_base s) \<lparr> pc := rs1_data s, state := FETCH \<rparr>)"

definition exec_shift :: "cpu \<Rightarrow> cpu" where
  "exec_shift s =
    (exec_base s)
      \<lparr> alu_result := sh_result (shifter s),
        flags := set_flag 6 (sh_result (shifter s) = 0)
                   (set_flag 7 (bit (sh_result (shifter s)) 15)
                      (set_flag 5 (carry_out (shifter s)) (flags s))),
        state := WRITEBACK \<rparr>"

definition exec_muldiv :: "cpu \<Rightarrow> cpu" where
  "exec_muldiv s = (exec_base s) \<lparr> alu_result := result (alu s), state := WRITEBACK \<rparr>"

definition exec_misc :: "cpu \<Rightarrow> cpu" where
  "exec_misc s =
    (if is_exx (dec s) then (exec_base s) \<lparr> state := FETCH \<rparr>
     else if func (dec s) = 0x2 then
       (exec_base s) \<lparr> flags := flags_from_alu (alu s) (flags s), state := FETCH \<rparr>
     else if func (dec s) = 0x4 then
       (exec_base s) \<lparr> alu_result := rs1_data s, state := WRITEBACK \<rparr>
     else (exec_base s) \<lparr> state := FETCH \<rparr>)"

text \<open>An I/O instruction that is neither an input nor an output sets no next state:
  the machine stays in EXECUTE.\<close>

definition exec_io :: "cpu \<Rightarrow> cpu_in \<Rightarrow> cpu" where
  "exec_io s inp =
    (if is_io_in (dec s) then
       (exec_base s) \<lparr> alu_result := ucast (io_rdata inp), state := WRITEBACK \<rparr>
     else if is_io_out (dec s) then (exec_base s) \<lparr> state := FETCH \<rparr>
     else exec_base s)"

definition exec_system :: "cpu \<Rightarrow> cpu" where
  "exec_system s =
    (if is_halt (dec s) then (exec_base s) \<lparr> state := HALTED \<rparr>
     else if is_ei (dec s) then (exec_base s) \<lparr> int_enabled := True, state := FETCH \<rparr>
     else if is_di (dec s) then (exec_base s) \<lparr> int_enabled := False, state := FETCH \<rparr>
     else (exec_base s) \<lparr> state := FETCH \<rparr>)"

definition exec_extended :: "cpu \<Rightarrow> cpu_in \<Rightarrow> cpu" where
  "exec_extended s inp =
    (let d = dec s
     in if mem_load d \<or> mem_store d then
          (if mem_store d then
             (exec_base s) \<lparr> mem_addr_reg := rs1_data s + instr_ext s,
                             mem_data_reg := rd_data1 s, state := MEMORY \<rparr>
           else (exec_base s) \<lparr> mem_addr_reg := rs1_data s + instr_ext s, state := MEMORY \<rparr>)
        else if is_jump d then
          (if is_call d then
             (exec_base s) \<lparr> pc := instr_ext s, alu_result := pc_plus_4 s, state := WRITEBACK \<rparr>
           else (exec_base s) \<lparr> pc := instr_ext s, state := FETCH \<rparr>)
        else if func d = 0x7 then
          (exec_base s) \<lparr> alu_result := instr_ext s, state := WRITEBACK \<rparr>
        else if is_io_in d then
          (exec_base s) \<lparr> alu_result := ucast (io_rdata inp), state := WRITEBACK \<rparr>
        else if is_io_out d then (exec_base s) \<lparr> state := FETCH \<rparr>
        else exec_alu s)"

definition execute :: "cpu \<Rightarrow> cpu_in \<Rightarrow> cpu" where
  "execute s inp =
    (case inst_type (dec s) of
       ALU_REG \<Rightarrow> exec_alu s
     | ALU_IMM \<Rightarrow> exec_alu s
     | LOAD \<Rightarrow> exec_load s
     | STORE \<Rightarrow> exec_store s
     | BRANCH \<Rightarrow> exec_branch s
     | JUMP \<Rightarrow> exec_jump s
     | JUMP_REG \<Rightarrow> exec_jump_reg s
     | SHIFT \<Rightarrow> exec_shift s
     | MULDIV \<Rightarrow> exec_muldiv s
     | MISC \<Rightarrow> exec_misc s
     | IO \<Rightarrow> exec_io s inp
     | SYSTEM \<Rightarrow> exec_system s
     | EXTENDED \<Rightarrow> exec_extended s inp
     | INVALID \<Rightarrow> (exec_base s) \<lparr> state := FETCH \<rparr>)"

subsection \<open>The other states\<close>

definition step_reset :: "cpu \<Rightarrow> cpu" where
  "step_reset s =
    s \<lparr> pc := reset_vector s, flags := 0, int_enabled := False, cycles := 0, state := FETCH \<rparr>"

definition step_fetch :: "cpu \<Rightarrow> cpu_in \<Rightarrow> cpu" where
  "step_fetch s inp =
    (if mem_ready inp then s \<lparr> instr := mem_rdata inp, state := DECODE \<rparr> else s)"

definition step_decode :: "cpu \<Rightarrow> cpu" where
  "step_decode s =
    (if is_extended (dec s) then s \<lparr> state := FETCH_EXT \<rparr> else s \<lparr> state := EXECUTE \<rparr>)"

definition step_fetch_ext :: "cpu \<Rightarrow> cpu_in \<Rightarrow> cpu" where
  "step_fetch_ext s inp =
    (if mem_ready inp then s \<lparr> instr_ext := mem_rdata inp, state := EXECUTE \<rparr> else s)"

text \<open>In the byte load the source binds the Python name \<open>byte_data\<close> twice while the
  design is elaborated, under \<open>m.If(mem_addr_reg[0])\<close> and under \<open>m.Else()\<close>; the second
  binding, \<open>mem_rdata[0:8]\<close>, is the one the assignments below it use.\<close>

definition byte_data :: "cpu_in \<Rightarrow> u8" where
  "byte_data inp = ucast (mem_rdata inp)"

definition step_memory :: "cpu \<Rightarrow> cpu_in \<Rightarrow> cpu" where
  "step_memory s inp =
    (if mem_ready inp then
       (if mem_load (dec s) then
          (if mem_byte (dec s) then
             (if mem_signed (dec s)
              then s \<lparr> alu_result := scast (byte_data inp), state := WRITEBACK \<rparr>
              else s \<lparr> alu_result := ucast (byte_data inp), state := WRITEBACK \<rparr>)
           else s \<lparr> alu_result := mem_rdata inp, state := WRITEBACK \<rparr>)
        else s \<lparr> state := FETCH \<rparr>)
     else s)"

definition step_writeback :: "cpu \<Rightarrow> cpu" where
  "step_writeback s = s \<lparr> state := FETCH \<rparr>"

subsection \<open>The register file's write port and EXX strobe\<close>

definition regfile_ctl :: "cpu \<Rightarrow> regfile_wr" where
  "regfile_ctl s =
    (if state s = EXECUTE \<and> inst_type (dec s) = MISC \<and> is_exx (dec s) then
       \<lparr> wr_addr = 0, wr_data = 0, wr_en = False, exx = True \<rparr>
     else if state s = WRITEBACK \<and> reg_write (dec s) then
       \<lparr> wr_addr = rd (dec s), wr_data = alu_result s, wr_en = True, exx = False \<rparr>
     else \<lparr> wr_addr = 0, wr_data = 0, wr_en = False, exx = False \<rparr>)"

subsection \<open>One clock cycle\<close>

definition cpu_step :: "cpu \<Rightarrow> cpu_in \<Rightarrow> cpu" where
  "cpu_step s inp =
    (case state s of
       RESET \<Rightarrow> step_reset s
     | FETCH \<Rightarrow> step_fetch s inp
     | FETCH_EXT \<Rightarrow> step_fetch_ext s inp
     | DECODE \<Rightarrow> step_decode s
     | EXECUTE \<Rightarrow> execute s inp
     | MEMORY \<Rightarrow> step_memory s inp
     | WRITEBACK \<Rightarrow> step_writeback s
     | HALTED \<Rightarrow> s) \<lparr> rf := regfile_step (rf s) (regfile_ctl s) \<rparr>"

subsection \<open>The bus outputs\<close>

definition out_defaults :: "cpu \<Rightarrow> cpu_out" where
  "out_defaults s =
    \<lparr> mem_addr = 0, mem_wdata = 0, mem_we = False, mem_be = 0b11, mem_valid = False,
      io_addr = 0, io_wdata = 0, io_rd = False, io_wr = False,
      halted = (state s = HALTED) \<rparr>"

definition out_io :: "cpu \<Rightarrow> cpu_out" where
  "out_io s =
    (let d = dec s
     in if is_io_in d then
          (out_defaults s)
            \<lparr> io_addr := (if io_port_imm d then ucast (rs1 d) else ucast (rs1_data s)),
              io_rd := True \<rparr>
        else if is_io_out d then
          (out_defaults s)
            \<lparr> io_addr := (if io_port_imm d then ucast (rs1 d) else ucast (rd_data1 s)),
              io_wdata := ucast (rd_data1 s),
              io_wr := True \<rparr>
        else out_defaults s)"

definition out_extended :: "cpu \<Rightarrow> cpu_out" where
  "out_extended s =
    (let d = dec s
     in if mem_load d \<or> mem_store d then out_defaults s
        else if is_jump d then out_defaults s
        else if func d = 0x7 then out_defaults s
        else if is_io_in d then
          (out_defaults s) \<lparr> io_addr := ucast (instr_ext s), io_rd := True \<rparr>
        else if is_io_out d then
          (out_defaults s) \<lparr> io_addr := ucast (instr_ext s),
                              io_wdata := ucast (rs1_data s), io_wr := True \<rparr>
        else out_defaults s)"

definition out_memory :: "cpu \<Rightarrow> cpu_out" where
  "out_memory s =
    (let o1 = (out_defaults s) \<lparr> mem_addr := mem_addr_reg s, mem_valid := True \<rparr>
     in if mem_store (dec s) then
          (let o2 = o1 \<lparr> mem_wdata := mem_data_reg s, mem_we := True \<rparr>
           in if mem_byte (dec s) then
                (if bit (mem_addr_reg s) 0
                 then o2 \<lparr> mem_be := 0b10, mem_wdata := push_bit 8 (mem_data_reg s) \<rparr>
                 else o2 \<lparr> mem_be := 0b01 \<rparr>)
              else o2)
        else o1)"

definition cpu_outputs :: "cpu \<Rightarrow> cpu_out" where
  "cpu_outputs s =
    (case state s of
       FETCH \<Rightarrow> (out_defaults s) \<lparr> mem_addr := pc s, mem_valid := True \<rparr>
     | FETCH_EXT \<Rightarrow> (out_defaults s) \<lparr> mem_addr := pc s + 2, mem_valid := True \<rparr>
     | EXECUTE \<Rightarrow>
         (case inst_type (dec s) of
            IO \<Rightarrow> out_io s
          | EXTENDED \<Rightarrow> out_extended s
          | _ \<Rightarrow> out_defaults s)
     | MEMORY \<Rightarrow> out_memory s
     | _ \<Rightarrow> out_defaults s)"

subsection \<open>Running the machine\<close>

fun cpu_run :: "cpu \<Rightarrow> cpu_in list \<Rightarrow> cpu" where
  "cpu_run s [] = s"
| "cpu_run s (x # xs) = cpu_run (cpu_step s x) xs"

section \<open>The branch table of the specification\<close>

text \<open>The table of section 4.5, row by row: the condition under which the branch with
  the given code is taken, as a function of the flags N, Z, C and V.\<close>

definition branch_table :: "nat \<Rightarrow> bool \<Rightarrow> bool \<Rightarrow> bool \<Rightarrow> bool \<Rightarrow> bool" where
  "branch_table code N Z C V =
    ([Z, \<not> Z, N \<noteq> V, N = V, \<not> C, C, N, \<not> N, V, \<not> V, C, \<not> C,
      \<not> Z \<and> N = V, Z \<or> N \<noteq> V, C \<and> \<not> Z, \<not> C \<or> Z] ! code)"

section \<open>Concrete machine states\<close>

text \<open>The machine in EXECUTE at the reset vector, holding the instruction word \<open>i\<close>,
  with registers \<open>r\<close> and a cleared alternate bank.\<close>

definition exec_state :: "u16 \<Rightarrow> (u4 \<Rightarrow> u16) \<Rightarrow> cpu" where
  "exec_state i r =
    \<lparr> reset_vector = 0x0100, state = EXECUTE, pc = 0x0100, flags = 0, cycles = 0,
      instr = i, instr_ext = 0, alu_result = 0, mem_addr_reg = 0, mem_data_reg = 0,
      int_enabled = False, int_pending = False,
      rf = \<lparr> regs = r, regs_alt = (\<lambda>_. 0) \<rparr> \<rparr>"

definition idle_in :: cpu_in where
  "idle_in = \<lparr> mem_rdata = 0, mem_ready = False, io_rdata = 0, irq = False \<rparr>"

definition fetch_in :: "u16 \<Rightarrow> cpu_in" where
  "fetch_in w = \<lparr> mem_rdata = w, mem_ready = True, io_rdata = 0, irq = False \<rparr>"

text \<open>MULHU R1, R3 (the word 0xB132; the func nibble 2 is also the rs2 field) with
  R2 = R3 = 0x0100.\<close>

definition mulhu_state :: cpu where
  "mulhu_state = exec_state 0xB132 ((\<lambda>_. 0)(2 := 0x0100, 3 := 0x0100))"

text \<open>MUL R1, R0, R0 (the word 0xB100) with all registers and the flags cleared.\<close>

definition muldiv_state :: cpu where
  "muldiv_state = exec_state 0xB100 (\<lambda>_. 0)"

text \<open>LUI with rd = 1 and low byte 0x28 (the word 0x6128), R1 = 0x1234.\<close>

definition lui_state :: cpu where
  "lui_state = exec_state 0x6128 ((\<lambda>_. 0)(1 := 0x1234))"

text \<open>OUT with rd = 1 and rs1 = 2 (the word 0xD123), R1 = 0x0041, R2 = 0x0081.\<close>

definition out_state :: cpu where
  "out_state = exec_state 0xD123 ((\<lambda>_. 0)(1 := 0x0041, 2 := 0x0081))"

section \<open>Nibbles and 17-bit sums\<close>

lemma nat_lt16:
  "(idx::nat) < 16 \<Longrightarrow> idx = 0 \<or> idx = 1 \<or> idx = 2 \<or> idx = 3 \<or> idx = 4 \<or> idx = 5 \<or> idx = 6 \<or> idx = 7
    \<or> idx = 8 \<or> idx = 9 \<or> idx = 10 \<or> idx = 11 \<or> idx = 12 \<or> idx = 13 \<or> idx = 14 \<or> idx = 15"
  by (simp add: numeral_eq_Suc less_Suc_eq)

lemma u4_exhaust:
  "(c::u4) = 0 \<or> c = 1 \<or> c = 2 \<or> c = 3 \<or> c = 4 \<or> c = 5 \<or> c = 6 \<or> c = 7
   \<or> c = 8 \<or> c = 9 \<or> c = 10 \<or> c = 11 \<or> c = 12 \<or> c = 13 \<or> c = 14 \<or> c = 15"
proof -
  have "unat c < 16" using unsigned_less [of c, where ?'a = nat] by simp
  from nat_lt16 [OF this] show ?thesis
    by (simp add: word_unat_eq_iff)
qed

lemma nat_lt8:
  "(idx::nat) < 8 \<Longrightarrow> idx = 0 \<or> idx = 1 \<or> idx = 2 \<or> idx = 3 \<or> idx = 4 \<or> idx = 5 \<or> idx = 6 \<or> idx = 7"
  by (simp add: numeral_eq_Suc less_Suc_eq)

lemma u3_exhaust:
  "(c::u3) = 0 \<or> c = 1 \<or> c = 2 \<or> c = 3 \<or> c = 4 \<or> c = 5 \<or> c = 6 \<or> c = 7"
proof -
  have "unat c < 8" using unsigned_less [of c, where ?'a = nat] by simp
  from nat_lt8 [OF this] show ?thesis
    by (simp add: word_unat_eq_iff)
qed

lemma ucast_16_17: "unat (ucast (x::u16) :: u17) = unat x"
proof -
  have "unat x < 2 ^ 16" using unsigned_less [of x, where ?'a = nat] by simp
  then have "unat x < 2 ^ 17" by simp
  then show ?thesis by (simp add: unsigned_ucast_eq take_bit_nat_eq_self)
qed

lemma ucast_round: "(ucast (ucast (x::u16) :: u17) :: u16) = x"
  by (rule bit_word_eqI) (simp add: bit_ucast_iff)

lemma wide_sum: "unat (ucast (x::u16) + ucast (y::u16) :: u17) = unat x + unat y"
proof -
  have "unat x < 2 ^ 16" "unat y < 2 ^ 16"
    using unsigned_less [of x, where ?'a = nat] unsigned_less [of y, where ?'a = nat] by simp_all
  then have "unat x + unat y < 2 ^ 17" by simp
  then show ?thesis by (simp add: unat_word_ariths ucast_16_17)
qed

lemma low_sum: "(ucast (ucast (x::u16) + ucast (y::u16) :: u17) :: u16) = x + y"
proof -
  have "unat (ucast (ucast x + ucast y :: u17) :: u16)
      = unat (ucast x + ucast y :: u17) mod 2 ^ 16"
    by (simp add: unsigned_ucast_eq take_bit_eq_mod)
  also have "\<dots> = (unat x + unat y) mod 2 ^ 16" by (simp only: wide_sum)
  also have "\<dots> = unat (x + y)" by (simp add: unat_word_ariths)
  finally show ?thesis by (simp only: word_unat_eq_iff)
qed

lemma bit16: "bit (w :: u17) 16 \<longleftrightarrow> 2 ^ 16 \<le> unat w"
proof -
  have lt: "unat w < 2 ^ 17" using unsigned_less [of w, where ?'a = nat] by simp
  have "bit w 16 \<longleftrightarrow> bit (unat w) 16" by (simp add: bit_unsigned_iff)
  also have "\<dots> \<longleftrightarrow> odd (unat w div 2 ^ 16)" by (simp add: bit_iff_odd)
  also have "\<dots> \<longleftrightarrow> 2 ^ 16 \<le> unat w"
  proof (cases "2 ^ 16 \<le> unat w")
    case True
    with lt have "unat w div 2 ^ 16 = 1" by simp
    with True show ?thesis by simp
  next
    case False
    then have "unat w div 2 ^ 16 = 0" by simp
    with False show ?thesis by simp
  qed
  finally show ?thesis .
qed

section \<open>The ALU\<close>

lemma add_result:
  "alu_result_of \<lparr> a = x, b = y, op = ALUOp_ADD, carry_in = cin, shift_amt = sa \<rparr> = x + y"
  by (simp add: alu_result_of_def result_wide_def low_sum)

lemma add_carry:
  "bit (result_wide \<lparr> a = x, b = y, op = ALUOp_ADD, carry_in = cin, shift_amt = sa \<rparr>) 16
    \<longleftrightarrow> 2 ^ 16 \<le> unat x + unat y"
  by (simp add: result_wide_def bit16 wide_sum)

text \<open>
  Claim C5. For all 16-bit operands \<open>x\<close> and \<open>y\<close> the ALU's ADD gives the result
  \<open>(x + y) mod 2^16\<close>, N = bit 15 of the result, Z = (result = 0), C = (x + y \<ge> 2^16) on
  the unsigned values, and V exactly when \<open>x\<close> and \<open>y\<close> have equal sign bits and the
  result's sign bit differs from that of \<open>x\<close>.
\<close>

theorem alu_add:
  "(let r = ALU \<lparr> a = x, b = y, op = ALUOp_ADD, carry_in = cin, shift_amt = sa \<rparr>
    in unat (result r) = (unat x + unat y) mod 2 ^ 16
       \<and> flag_n r = bit (result r) 15
       \<and> flag_z r = (result r = 0)
       \<and> flag_c r = (2 ^ 16 \<le> unat x + unat y)
       \<and> flag_v r = ((bit x 15 = bit y 15) \<and> (bit x 15 \<noteq> bit (result r) 15)))"
  by (simp add: ALU_def Let_def add_result add_carry alu_flag_v_def unat_word_ariths)

section \<open>The branch condition\<close>

text \<open>
  Claim C4. For every 4-bit condition code \<open>c\<close> and every value of the flags register,
  \<open>branch_taken\<close> is the entry of the specification's table for \<open>c\<close> at N = bit 7,
  Z = bit 6, C = bit 5 and V = bit 4 of the flags: BEQ = Z, BNE = not Z, BLT = (N \<noteq> V),
  BGE = (N = V), BLTU = not C, BGEU = C, BMI = N, BPL = not N, BVS = V, BVC = not V,
  BCS = C, BCC = not C, BGT = (not Z and N = V), BLE = (Z or N \<noteq> V), BHI = (C and not Z),
  BLS = (not C or Z).
\<close>

theorem branch_taken_table:
  "branch_taken c fl = branch_table (unat c) (bit fl 7) (bit fl 6) (bit fl 5) (bit fl 4)"
  using u4_exhaust [of c]
  by (elim disjE) (simp_all add: branch_taken_def branch_table_def)

theorem branch_taken_table_witness:
  "branch_taken 0xF 0x40 \<and> branch_table 15 False True False False"
  using branch_taken_table [of "0xF" "0x40"]
  by (simp add: branch_table_def)

section \<open>The register file\<close>

lemma regfile_idle:
  "regfile_step r \<lparr> wr_addr = 0, wr_data = 0, wr_en = False, exx = False \<rparr> = r"
  by (simp add: regfile_step_def regfile_write_def)

text \<open>
  Claim C8. After every sequence of register-file writes and EXX swaps, a read port
  (both ports are \<open>rd_data\<close>) given address 0 returns 0, and a write with
  \<open>wr_addr = 0\<close>, for any \<open>wr_data\<close> and \<open>wr_en\<close>, leaves every stored register, of
  the main and of the alternate bank, unchanged.
\<close>

theorem r0_reads_zero_and_ignores_writes:
  "rd_data (regfile_run r ops) 0 = 0
   \<and> regfile_step (regfile_run r ops) \<lparr> wr_addr = 0, wr_data = d, wr_en = en, exx = False \<rparr>
       = regfile_run r ops"
  by (simp add: rd_data_def regfile_step_def regfile_write_def)

section \<open>Decoding by opcode\<close>

lemma dec_misc:
  "f_opcode (instr s) = 0xC \<Longrightarrow>
   dec s = decode_misc (f_func (instr s)) (decoder_defaults (instr s) (instr_ext s))"
  by (simp add: dec_def Decoder_def Let_def)

lemma dec_test:
  assumes "f_opcode (instr s) = 0xC" "f_func (instr s) = 0x3"
  shows "inst_type (dec s) = MISC" "\<not> is_exx (dec s)" "func (dec s) = 0x3"
    "\<not> is_extended (dec s)"
  using assms by (simp_all add: dec_misc decode_misc_def decoder_defaults_def)

section \<open>TEST\<close>

text \<open>
  Claim C10. Executing TEST (opcode 0xC, func 3) changes neither the flags nor any
  register: the EXECUTE cycle goes back to FETCH, and the state after it is the state
  before it with PC advanced by 2 and CYCLES incremented by 1.
\<close>

theorem test_frame:
  assumes "state s = EXECUTE" "f_opcode (instr s) = 0xC" "f_func (instr s) = 0x3"
  shows "cpu_step s inp = s \<lparr> pc := pc s + 2, cycles := cycles s + 1, state := FETCH \<rparr>"
proof -
  note d = dec_test [OF assms(2,3)]
  have "regfile_ctl s = \<lparr> wr_addr = 0, wr_data = 0, wr_en = False, exx = False \<rparr>"
    using assms(1) d by (simp add: regfile_ctl_def)
  moreover have "execute s inp = s \<lparr> pc := pc s + 2, cycles := cycles s + 1, state := FETCH \<rparr>"
    using d by (simp add: execute_def exec_misc_def exec_base_def pc_plus_2_def)
  ultimately show ?thesis
    using assms(1) by (simp add: cpu_step_def regfile_idle)
qed

theorem test_frame_witness:
  "state (exec_state 0xC123 (\<lambda>_. 0)) = EXECUTE
   \<and> f_opcode (instr (exec_state 0xC123 (\<lambda>_. 0))) = 0xC
   \<and> f_func (instr (exec_state 0xC123 (\<lambda>_. 0))) = 0x3
   \<and> cpu_step (exec_state 0xC123 (\<lambda>_. 0)) idle_in
       = (exec_state 0xC123 (\<lambda>_. 0)) \<lparr> pc := 0x0102, cycles := 1, state := FETCH \<rparr>"
  using test_frame [of "exec_state 0xC123 (\<lambda>_. 0)" idle_in]
  by (simp add: exec_state_def f_opcode_def f_func_def)

section \<open>MULDIV\<close>

lemma dec_muldiv:
  "f_opcode (instr s) = 0xB \<Longrightarrow>
   dec s = decode_muldiv (f_func (instr s)) (decoder_defaults (instr s) (instr_ext s))"
  by (simp add: dec_def Decoder_def Let_def)

lemma dec_muldiv_fields:
  assumes "f_opcode (instr s) = 0xB"
  shows "inst_type (dec s) = MULDIV" "\<not> is_extended (dec s)" "reg_write (dec s)"
    "rd (dec s) = f_rd (instr s)" "rs1 (dec s) = f_rs1 (instr s)" "rs2 (dec s) = f_rs2 (instr s)"
  using assms by (simp_all add: dec_muldiv decode_muldiv_def decoder_defaults_def Let_def)

lemma muldiv_exec:
  assumes "state s = EXECUTE" "f_opcode (instr s) = 0xB"
  shows "cpu_step s inp = s \<lparr> pc := pc s + 2, cycles := cycles s + 1,
            alu_result := result (alu s), state := WRITEBACK \<rparr>"
proof -
  note d = dec_muldiv_fields [OF assms(2)]
  have "regfile_ctl s = \<lparr> wr_addr = 0, wr_data = 0, wr_en = False, exx = False \<rparr>"
    using assms(1) d by (simp add: regfile_ctl_def)
  moreover have "execute s inp = s \<lparr> pc := pc s + 2, cycles := cycles s + 1,
            alu_result := result (alu s), state := WRITEBACK \<rparr>"
    using d by (simp add: execute_def exec_muldiv_def exec_base_def pc_plus_2_def)
  ultimately show ?thesis
    using assms(1) by (simp add: cpu_step_def regfile_idle)
qed

lemma muldiv_alu:
  assumes "f_opcode (instr s) = 0xB"
  shows "alu s = ALU \<lparr> a = rd_data (rf s) (f_rs1 (instr s)), b = rd_data (rf s) (f_rs2 (instr s)),
                      op = alu_op (dec s), carry_in = False, shift_amt = 0 \<rparr>"
  using dec_muldiv_fields [OF assms]
  by (simp add: alu_def alu_a_def alu_b_def rs1_data_def rs2_data_def rd_data1_def rd_data2_def
      rd_addr1_def Let_def)

lemma muldiv_op:
  assumes "f_opcode (instr s) = 0xB"
  shows "alu_op (dec s) =
     (if f_func (instr s) = 0 then ALUOp_MUL else if f_func (instr s) = 1 then ALUOp_MULH
      else if f_func (instr s) = 3 then ALUOp_DIV else if f_func (instr s) = 5 then ALUOp_REM
      else ALUOp_ADD)"
  using assms by (simp add: dec_muldiv decode_muldiv_def decoder_defaults_def Let_def)

text \<open>
  Claim C2 says that for every MULDIV instruction (opcode 0xB) the EXECUTE cycle latches
  \<open>ALU_RES := alu.result\<close> and updates N, Z, C and V from the ALU's flag outputs before
  WRITEBACK. The MULDIV case latches the result and goes to WRITEBACK but assigns no
  flag (lemma \<open>muldiv_exec\<close>), where the ALU_REG and ALU_IMM cases latch the flags of the
  same ALU. At \<open>muldiv_state\<close> the ALU's result is 0 and its zero flag is set, so the
  flags register updated from the ALU would be 0x40; after EXECUTE it is still 0.
\<close>

theorem muldiv_drops_flags:
  "state muldiv_state = EXECUTE
   \<and> f_opcode (instr muldiv_state) = 0xB
   \<and> flags muldiv_state = 0
   \<and> alu_result (cpu_step muldiv_state idle_in) = result (alu muldiv_state)
   \<and> state (cpu_step muldiv_state idle_in) = WRITEBACK
   \<and> result (alu muldiv_state) = 0
   \<and> flag_z (alu muldiv_state)
   \<and> flags_from_alu (alu muldiv_state) (flags muldiv_state) = 0x40
   \<and> flags (cpu_step muldiv_state idle_in) = 0"
proof -
  have st: "state muldiv_state = EXECUTE" by (simp add: muldiv_state_def exec_state_def)
  have opc: "f_opcode (instr muldiv_state) = 0xB"
    by (simp add: muldiv_state_def exec_state_def f_opcode_def)
  have fn: "f_func (instr muldiv_state) = 0"
    by (simp add: muldiv_state_def exec_state_def f_func_def)
  have fl: "flags muldiv_state = 0" by (simp add: muldiv_state_def exec_state_def)
  have r1: "rd_data (rf muldiv_state) (f_rs1 (instr muldiv_state)) = 0"
    and r2: "rd_data (rf muldiv_state) (f_rs2 (instr muldiv_state)) = 0"
    by (simp_all add: muldiv_state_def exec_state_def rd_data_def)
  have al: "alu muldiv_state
      = ALU \<lparr> a = 0, b = 0, op = ALUOp_MUL, carry_in = False, shift_amt = 0 \<rparr>"
    using fn by (simp add: muldiv_alu [OF opc] muldiv_op [OF opc] r1 r2)
  have out: "alu muldiv_state
      = \<lparr> result = 0, flag_n = False, flag_z = True, flag_c = False, flag_v = False \<rparr>"
    by (simp add: al ALU_def alu_result_of_def result_wide_def mul_result_def alu_flag_v_def)
  have ffa: "flags_from_alu (alu muldiv_state) (flags muldiv_state) = 0x40"
    by (simp add: out fl flags_from_alu_def set_flag_def)
  have step: "cpu_step muldiv_state idle_in
      = muldiv_state \<lparr> pc := pc muldiv_state + 2, cycles := cycles muldiv_state + 1,
            alu_result := result (alu muldiv_state), state := WRITEBACK \<rparr>"
    by (rule muldiv_exec [OF st opc])
  show ?thesis using st opc fl ffa by (simp add: step out)
qed

section \<open>Division by zero\<close>

lemma div_zero: "alu_result_of \<lparr> a = x, b = 0, op = ALUOp_DIV, carry_in = cin, shift_amt = sa \<rparr> = 0xFFFF"
  by (simp add: alu_result_of_def result_wide_def)

lemma rem_zero: "alu_result_of \<lparr> a = x, b = 0, op = ALUOp_REM, carry_in = cin, shift_amt = sa \<rparr> = x"
  by (simp add: alu_result_of_def result_wide_def ucast_round)

text \<open>
  Claim C6. For every 16-bit dividend \<open>x\<close> the ALU with divisor 0 gives the result
  0xFFFF for DIV and \<open>x\<close> for REM. No trap or error state arises: the engine executing
  DIV (opcode 0xB, func 3) or REM (func 5) with a zero divisor register latches that
  value and goes on to WRITEBACK.
\<close>

theorem div_rem_by_zero:
  "result (ALU \<lparr> a = x, b = 0, op = ALUOp_DIV, carry_in = cin, shift_amt = sa \<rparr>) = 0xFFFF
   \<and> result (ALU \<lparr> a = x, b = 0, op = ALUOp_REM, carry_in = cin, shift_amt = sa \<rparr>) = x
   \<and> (state s = EXECUTE \<and> f_opcode (instr s) = 0xB \<and> f_func (instr s) = 0x3
        \<and> rd_data (rf s) (f_rs2 (instr s)) = 0
      \<longrightarrow> alu_result (cpu_step s inp) = 0xFFFF \<and> state (cpu_step s inp) = WRITEBACK)
   \<and> (state s = EXECUTE \<and> f_opcode (instr s) = 0xB \<and> f_func (instr s) = 0x5
        \<and> rd_data (rf s) (f_rs2 (instr s)) = 0
      \<longrightarrow> alu_result (cpu_step s inp) = rd_data (rf s) (f_rs1 (instr s))
          \<and> state (cpu_step s inp) = WRITEBACK)"
proof (intro conjI impI)
  show "result (ALU \<lparr> a = x, b = 0, op = ALUOp_DIV, carry_in = cin, shift_amt = sa \<rparr>) = 0xFFFF"
    by (simp add: ALU_def div_zero)
  show "result (ALU \<lparr> a = x, b = 0, op = ALUOp_REM, carry_in = cin, shift_amt = sa \<rparr>) = x"
    by (simp add: ALU_def rem_zero)
next
  assume h: "state s = EXECUTE \<and> f_opcode (instr s) = 0xB \<and> f_func (instr s) = 0x3
        \<and> rd_data (rf s) (f_rs2 (instr s)) = 0"
  then have st: "state s = EXECUTE" and opc: "f_opcode (instr s) = 0xB" by simp_all
  have "result (alu s) = 0xFFFF"
    using h by (simp add: muldiv_alu [OF opc] muldiv_op [OF opc] ALU_def div_zero)
  then show "alu_result (cpu_step s inp) = 0xFFFF" "state (cpu_step s inp) = WRITEBACK"
    by (simp_all add: muldiv_exec [OF st opc])
next
  assume h: "state s = EXECUTE \<and> f_opcode (instr s) = 0xB \<and> f_func (instr s) = 0x5
        \<and> rd_data (rf s) (f_rs2 (instr s)) = 0"
  then have st: "state s = EXECUTE" and opc: "f_opcode (instr s) = 0xB" by simp_all
  have "result (alu s) = rd_data (rf s) (f_rs1 (instr s))"
    using h by (simp add: muldiv_alu [OF opc] muldiv_op [OF opc] ALU_def rem_zero)
  then show "alu_result (cpu_step s inp) = rd_data (rf s) (f_rs1 (instr s))"
    "state (cpu_step s inp) = WRITEBACK"
    by (simp_all add: muldiv_exec [OF st opc])
qed

theorem div_rem_by_zero_witness:
  "state (exec_state 0xB123 ((\<lambda>_. 0)(2 := 0x1234))) = EXECUTE
   \<and> f_opcode (instr (exec_state 0xB123 ((\<lambda>_. 0)(2 := 0x1234)))) = 0xB
   \<and> f_func (instr (exec_state 0xB123 ((\<lambda>_. 0)(2 := 0x1234)))) = 0x3
   \<and> rd_data (rf (exec_state 0xB123 ((\<lambda>_. 0)(2 := 0x1234))))
        (f_rs2 (instr (exec_state 0xB123 ((\<lambda>_. 0)(2 := 0x1234))))) = 0
   \<and> alu_result (cpu_step (exec_state 0xB123 ((\<lambda>_. 0)(2 := 0x1234))) idle_in) = 0xFFFF
   \<and> state (cpu_step (exec_state 0xB123 ((\<lambda>_. 0)(2 := 0x1234))) idle_in) = WRITEBACK
   \<and> state (exec_state 0xB125 ((\<lambda>_. 0)(2 := 0x1234))) = EXECUTE
   \<and> f_opcode (instr (exec_state 0xB125 ((\<lambda>_. 0)(2 := 0x1234)))) = 0xB
   \<and> f_func (instr (exec_state 0xB125 ((\<lambda>_. 0)(2 := 0x1234)))) = 0x5
   \<and> rd_data (rf (exec_state 0xB125 ((\<lambda>_. 0)(2 := 0x1234))))
        (f_rs2 (instr (exec_state 0xB125 ((\<lambda>_. 0)(2 := 0x1234))))) = 0
   \<and> alu_result (cpu_step (exec_state 0xB125 ((\<lambda>_. 0)(2 := 0x1234))) idle_in) = 0x1234
   \<and> state (cpu_step (exec_state 0xB125 ((\<lambda>_. 0)(2 := 0x1234))) idle_in) = WRITEBACK"
  using div_rem_by_zero [of _ _ _ "exec_state 0xB123 ((\<lambda>_. 0)(2 := 0x1234))" idle_in]
    div_rem_by_zero [of _ _ _ "exec_state 0xB125 ((\<lambda>_. 0)(2 := 0x1234))" idle_in]
  by (simp add: exec_state_def f_opcode_def f_func_def f_rs2_def f_rs1_def rd_data_def)

section \<open>WRITEBACK\<close>

lemma writeback_step:
  assumes "state s = WRITEBACK" "reg_write (dec s)"
  shows "cpu_step s inp = s \<lparr> state := FETCH,
      rf := regfile_step (rf s)
        \<lparr> wr_addr = rd (dec s), wr_data = alu_result s, wr_en = True, exx = False \<rparr> \<rparr>"
  using assms by (simp add: cpu_step_def step_writeback_def regfile_ctl_def)

lemma write_reg:
  "ad \<noteq> 0 \<Longrightarrow>
   regs (regfile_step r \<lparr> wr_addr = ad, wr_data = d, wr_en = True, exx = False \<rparr>)
     = (regs r)(ad := d)"
  by (simp add: regfile_step_def regfile_write_def)

section \<open>MULHU\<close>

lemma mulhu_exec:
  assumes "state s = EXECUTE" "f_opcode (instr s) = 0xB" "f_func (instr s) = 0x2"
  shows "alu_result (cpu_step s inp)
     = rd_data (rf s) (f_rs1 (instr s)) + rd_data (rf s) (f_rs2 (instr s))"
  using assms(3)
  by (simp add: muldiv_exec [OF assms(1,2)] muldiv_alu [OF assms(2)] muldiv_op [OF assms(2)]
      ALU_def add_result)

text \<open>
  Claim C9 says that MULDIV with func = 2 (MULHU) writes to rd the high 16 bits of the
  unsigned product of R[rs1] and R[rs2]. The decoder has no case for func 2, so the ALU
  operation stays ADD (lemma \<open>mulhu_exec\<close>). At \<open>mulhu_state\<close> the engine, after EXECUTE
  and WRITEBACK, has written 0x0200 = 0x0100 + 0x0100 to R1, where the high half of the
  unsigned product \<open>mul_result_u\<close> is 0x0001.
\<close>

theorem mulhu_adds:
  "regs (rf (cpu_run mulhu_state [idle_in, idle_in])) 1 = 0x0200
   \<and> (ucast (drop_bit 16 (mul_result_u
          \<lparr> a = rd_data (rf mulhu_state) (f_rs1 (instr mulhu_state)),
            b = rd_data (rf mulhu_state) (f_rs2 (instr mulhu_state)),
            op = ALUOp_ADD, carry_in = False, shift_amt = 0 \<rparr>)) :: u16) = 0x0001"
proof -
  have st: "state mulhu_state = EXECUTE" by (simp add: mulhu_state_def exec_state_def)
  have opc: "f_opcode (instr mulhu_state) = 0xB"
    by (simp add: mulhu_state_def exec_state_def f_opcode_def)
  have fn: "f_func (instr mulhu_state) = 0x2"
    by (simp add: mulhu_state_def exec_state_def f_func_def)
  have r1: "rd_data (rf mulhu_state) (f_rs1 (instr mulhu_state)) = 0x0100"
    by (simp add: mulhu_state_def exec_state_def f_rs1_def rd_data_def)
  have r2: "rd_data (rf mulhu_state) (f_rs2 (instr mulhu_state)) = 0x0100"
    by (simp add: mulhu_state_def exec_state_def f_rs2_def rd_data_def)
  let ?s1 = "cpu_step mulhu_state idle_in"
  have res: "alu_result ?s1 = 0x0200"
    using mulhu_exec [OF st opc fn, of idle_in] by (simp add: r1 r2)
  have s1: "state ?s1 = WRITEBACK" "instr ?s1 = instr mulhu_state"
    by (simp_all add: muldiv_exec [OF st opc])
  have opc1: "f_opcode (instr ?s1) = 0xB" using opc s1 by simp
  have rd1: "rd (dec ?s1) = 1"
    using dec_muldiv_fields(4) [OF opc1] s1
    by (simp add: mulhu_state_def exec_state_def f_rd_def)
  have "regs (rf (cpu_step ?s1 idle_in)) 1 = 0x0200"
    using rd1 res
    by (simp add: writeback_step [OF s1(1) dec_muldiv_fields(3) [OF opc1]] write_reg)
  moreover have "(ucast (drop_bit 16 (mul_result_u
          \<lparr> a = 0x0100, b = 0x0100, op = ALUOp_ADD, carry_in = False, shift_amt = 0 \<rparr>)) :: u16)
        = 0x0001"
    by (simp add: mul_result_u_def)
  ultimately show ?thesis by (simp add: r1 r2)
qed

section \<open>LUI\<close>

lemma dec_load:
  "f_opcode (instr s) = 0x6 \<Longrightarrow>
   dec s = decode_load (f_func (instr s)) (decoder_defaults (instr s) (instr_ext s))"
  by (simp add: dec_def Decoder_def Let_def)

lemma dec_lui:
  assumes "f_opcode (instr s) = 0x6" "f_func (instr s) = 0x8"
  shows "inst_type (dec s) = ALU_IMM" "\<not> mem_load (dec s)" "\<not> mem_store (dec s)"
    "reg_write (dec s)" "alu_op (dec s) = ALUOp_ADD" "\<not> is_extended (dec s)"
    "rd (dec s) = f_rd (instr s)" "imm8 (dec s) = scast (imm8_raw (instr s))"
  using assms by (simp_all add: dec_load decode_load_def decoder_defaults_def Let_def)

lemma lui_alu:
  assumes "f_opcode (instr s) = 0x6" "f_func (instr s) = 0x8"
  shows "alu s = ALU \<lparr> a = rd_data (rf s) (f_rd (instr s)), b = scast (imm8_raw (instr s)),
                      op = ALUOp_ADD, carry_in = False, shift_amt = 0 \<rparr>"
  using dec_lui [OF assms]
  by (simp add: alu_def alu_a_def alu_b_def rd_data1_def rd_addr1_def Let_def)

lemma lui_exec:
  assumes "state s = EXECUTE" "f_opcode (instr s) = 0x6" "f_func (instr s) = 0x8"
  shows "cpu_step s inp = s \<lparr> pc := pc s + 2, cycles := cycles s + 1,
            alu_result := rd_data (rf s) (f_rd (instr s)) + scast (imm8_raw (instr s)),
            flags := flags_from_alu (alu s) (flags s), state := WRITEBACK \<rparr>"
proof -
  note d = dec_lui [OF assms(2,3)]
  have "regfile_ctl s = \<lparr> wr_addr = 0, wr_data = 0, wr_en = False, exx = False \<rparr>"
    using assms(1) d by (simp add: regfile_ctl_def)
  moreover have "result (alu s) = rd_data (rf s) (f_rd (instr s)) + scast (imm8_raw (instr s))"
    by (simp add: lui_alu [OF assms(2,3)] ALU_def add_result)
  moreover have "execute s inp = s \<lparr> pc := pc s + 2, cycles := cycles s + 1,
            alu_result := result (alu s),
            flags := flags_from_alu (alu s) (flags s), state := WRITEBACK \<rparr>"
    using d by (simp add: execute_def exec_alu_def exec_base_def pc_plus_2_def)
  ultimately show ?thesis
    using assms(1) by (simp add: cpu_step_def regfile_idle)
qed

text \<open>
  Claim C1 says that LUI (opcode 0x6, func 0x8) is no memory operation and loads its
  byte immediate into bits 15:8 of R[rd]. The decoder clears \<open>mem_load\<close> and the engine
  never enters MEMORY, but the instruction is executed as ALU_IMM with the operation
  ADD (lemma \<open>lui_exec\<close>): R[rd] becomes R[rd] plus the sign-extended low byte of the
  instruction word. At \<open>lui_state\<close>, R1 = 0x1234 becomes 0x125C, whose upper half is
  0x12 and not the byte 0x28.
\<close>

theorem lui_adds_low_byte:
  "\<not> mem_load (dec lui_state)
   \<and> state (cpu_step lui_state idle_in) = WRITEBACK
   \<and> state (cpu_run lui_state [idle_in, idle_in]) = FETCH
   \<and> imm8_raw (instr lui_state) = 0x28
   \<and> regs (rf lui_state) 1 = 0x1234
   \<and> regs (rf (cpu_run lui_state [idle_in, idle_in])) 1 = 0x125C
   \<and> (ucast (drop_bit 8 (regs (rf (cpu_run lui_state [idle_in, idle_in])) 1)) :: u8) = 0x12"
proof -
  have st: "state lui_state = EXECUTE" by (simp add: lui_state_def exec_state_def)
  have opc: "f_opcode (instr lui_state) = 0x6"
    by (simp add: lui_state_def exec_state_def f_opcode_def)
  have fn: "f_func (instr lui_state) = 0x8"
    by (simp add: lui_state_def exec_state_def f_func_def)
  have imm: "imm8_raw (instr lui_state) = 0x28"
    by (simp add: lui_state_def exec_state_def imm8_raw_def)
  have r1: "rd_data (rf lui_state) (f_rd (instr lui_state)) = 0x1234"
    by (simp add: lui_state_def exec_state_def f_rd_def rd_data_def)
  let ?s1 = "cpu_step lui_state idle_in"
  have s1: "state ?s1 = WRITEBACK" "instr ?s1 = instr lui_state" "alu_result ?s1 = 0x125C"
    by (simp_all add: lui_exec [OF st opc fn] r1 imm)
  have opc1: "f_opcode (instr ?s1) = 0x6" and fn1: "f_func (instr ?s1) = 0x8"
    using opc fn s1 by simp_all
  have rd1: "rd (dec ?s1) = 1"
    using dec_lui(7) [OF opc1 fn1] s1
    by (simp add: lui_state_def exec_state_def f_rd_def)
  have wb: "cpu_step ?s1 idle_in = ?s1 \<lparr> state := FETCH,
      rf := regfile_step (rf ?s1)
        \<lparr> wr_addr = 1, wr_data = 0x125C, wr_en = True, exx = False \<rparr> \<rparr>"
    using writeback_step [OF s1(1) dec_lui(4) [OF opc1 fn1], of idle_in] rd1 s1(3) by simp
  have "regs (rf (cpu_step ?s1 idle_in)) 1 = 0x125C"
    by (simp add: wb write_reg)
  moreover have "state (cpu_step ?s1 idle_in) = FETCH" by (simp add: wb)
  moreover have "regs (rf lui_state) 1 = 0x1234" by (simp add: lui_state_def exec_state_def)
  ultimately show ?thesis
    using dec_lui(2) [OF opc fn] s1(1) imm by simp
qed

section \<open>OUT\<close>

lemma dec_io:
  "f_opcode (instr s) = 0xD \<Longrightarrow>
   dec s = decode_io (f_func (instr s)) (decoder_defaults (instr s) (instr_ext s))"
  by (simp add: dec_def Decoder_def Let_def)

lemma dec_out:
  assumes "f_opcode (instr s) = 0xD" "f_func (instr s) = 0x3"
  shows "inst_type (dec s) = IO" "\<not> is_io_in (dec s)" "is_io_out (dec s)"
    "\<not> io_port_imm (dec s)" "rd (dec s) = f_rd (instr s)"
  using assms by (simp_all add: dec_io decode_io_def decoder_defaults_def Let_def)

lemma out_drives_rd:
  assumes "state s = EXECUTE" "f_opcode (instr s) = 0xD" "f_func (instr s) = 0x3"
  shows "io_addr (cpu_outputs s) = ucast (rd_data (rf s) (f_rd (instr s)))"
    "io_wdata (cpu_outputs s) = ucast (rd_data (rf s) (f_rd (instr s)))"
    "io_wr (cpu_outputs s)"
  using assms(1) dec_out [OF assms(2,3)]
  by (simp_all add: cpu_outputs_def out_io_def rd_data1_def rd_addr1_def Let_def)

text \<open>
  Claim C3 says that the register-port OUT (opcode 0xD, func 3) drives \<open>io_addr\<close> with
  the low byte of R[rs1] and \<open>io_wdata\<close> with the low byte of R[rd]. The engine steers
  the one read port it uses to rd, so both outputs are the low byte of R[rd] (lemma
  \<open>out_drives_rd\<close>). At \<open>out_state\<close> the port address driven is 0x41, the low byte of
  R1, where the low byte of R[rs1] = R2 is 0x81.
\<close>

theorem out_port_from_rd:
  "io_wr (cpu_outputs out_state)
   \<and> io_wdata (cpu_outputs out_state) = 0x41
   \<and> io_addr (cpu_outputs out_state) = 0x41
   \<and> (ucast (rd_data (rf out_state) (f_rs1 (instr out_state))) :: u8) = 0x81"
proof -
  have st: "state out_state = EXECUTE" by (simp add: out_state_def exec_state_def)
  have opc: "f_opcode (instr out_state) = 0xD"
    by (simp add: out_state_def exec_state_def f_opcode_def)
  have fn: "f_func (instr out_state) = 0x3"
    by (simp add: out_state_def exec_state_def f_func_def)
  have r1: "rd_data (rf out_state) (f_rd (instr out_state)) = 0x0041"
    by (simp add: out_state_def exec_state_def f_rd_def rd_data_def)
  have r2: "rd_data (rf out_state) (f_rs1 (instr out_state)) = 0x0081"
    by (simp add: out_state_def exec_state_def f_rs1_def rd_data_def)
  show ?thesis
    using out_drives_rd [OF st opc fn] by (simp add: r1 r2)
qed

section \<open>EXX\<close>

lemma bank_back: "in_bank x \<Longrightarrow> ucast (ucast (x - 4) :: u3) + 4 = x"
  using u4_exhaust [of x]
  by (elim disjE) (simp_all add: in_bank_def)

lemma bank_in: "in_bank (ucast (j :: u3) + 4)"
  using u3_exhaust [of j]
  by (elim disjE) (simp_all add: in_bank_def)

lemma bank_forth: "ucast (ucast (j :: u3) :: u4) = j"
  using u3_exhaust [of j]
  by (elim disjE) simp_all

lemma exx_pulse:
  "regfile_step r \<lparr> wr_addr = 0, wr_data = 0, wr_en = False, exx = True \<rparr>
     = \<lparr> regs = (\<lambda>x. if in_bank x then regs_alt r (ucast (x - 4)) else regs r x),
         regs_alt = (\<lambda>j. regs r (ucast j + 4)) \<rparr>"
  by (simp add: regfile_step_def regfile_write_def cong: if_cong)

lemma exx_twice:
  "regfile_step (regfile_step r \<lparr> wr_addr = 0, wr_data = 0, wr_en = False, exx = True \<rparr>)
      \<lparr> wr_addr = 0, wr_data = 0, wr_en = False, exx = True \<rparr> = r"
  by (cases r) (auto simp add: exx_pulse bank_back bank_in bank_forth fun_eq_iff)

lemma dec_exx:
  assumes "f_opcode (instr s) = 0xC" "f_func (instr s) = 0xB"
  shows "inst_type (dec s) = MISC" "is_exx (dec s)" "\<not> is_extended (dec s)"
  using assms by (simp_all add: dec_misc decode_misc_def decoder_defaults_def)

lemma exx_exec:
  assumes "state s = EXECUTE" "f_opcode (instr s) = 0xC" "f_func (instr s) = 0xB"
  shows "cpu_step s inp = s \<lparr> pc := pc s + 2, cycles := cycles s + 1, state := FETCH,
      rf := regfile_step (rf s) \<lparr> wr_addr = 0, wr_data = 0, wr_en = False, exx = True \<rparr> \<rparr>"
proof -
  note d = dec_exx [OF assms(2,3)]
  have "regfile_ctl s = \<lparr> wr_addr = 0, wr_data = 0, wr_en = False, exx = True \<rparr>"
    using assms(1) d by (simp add: regfile_ctl_def)
  moreover have "execute s inp = s \<lparr> pc := pc s + 2, cycles := cycles s + 1, state := FETCH \<rparr>"
    using d by (simp add: execute_def exec_misc_def exec_base_def pc_plus_2_def)
  ultimately show ?thesis
    using assms(1) by (simp add: cpu_step_def)
qed

lemma fetch_ready:
  assumes "state s = FETCH" "mem_ready inp"
  shows "cpu_step s inp = s \<lparr> instr := mem_rdata inp, state := DECODE \<rparr>"
  using assms by (simp add: cpu_step_def step_fetch_def regfile_ctl_def regfile_idle)

lemma fetch_stall:
  assumes "state s = FETCH" "\<not> mem_ready inp"
  shows "cpu_step s inp = s"
  using assms by (simp add: cpu_step_def step_fetch_def regfile_ctl_def regfile_idle)

lemma fetch_stalls:
  assumes "state s = FETCH" "\<forall>i\<in>set stalls. \<not> mem_ready i"
  shows "cpu_run s stalls = s"
  using assms(2) by (induction stalls) (simp_all add: fetch_stall [OF assms(1)])

lemma cpu_run_append: "cpu_run s (xs @ ys) = cpu_run (cpu_run s xs) ys"
  by (induction xs arbitrary: s) simp_all

lemma decode_step:
  assumes "state s = DECODE" "\<not> is_extended (dec s)"
  shows "cpu_step s inp = s \<lparr> state := EXECUTE \<rparr>"
  using assms by (simp add: cpu_step_def step_decode_def regfile_ctl_def regfile_idle)

lemma exx_program:
  assumes "state s = EXECUTE" "f_opcode (instr s) = 0xC" "f_func (instr s) = 0xB"
    and "\<forall>i\<in>set stalls. \<not> mem_ready i"
    and "mem_ready fetch" "f_opcode (mem_rdata fetch) = 0xC" "f_func (mem_rdata fetch) = 0xB"
  shows "rf (cpu_run s (ia # stalls @ [fetch, ib, ic])) = rf s"
proof -
  let ?w = "\<lparr> wr_addr = 0, wr_data = 0, wr_en = False, exx = True \<rparr>"
  let ?s1 = "cpu_step s ia"
  have s1: "state ?s1 = FETCH" "rf ?s1 = regfile_step (rf s) ?w"
    by (simp_all add: exx_exec [OF assms(1-3)])
  have run1: "cpu_run ?s1 stalls = ?s1" by (rule fetch_stalls [OF s1(1) assms(4)])
  let ?s2 = "cpu_step ?s1 fetch"
  have s2eq: "?s2 = ?s1 \<lparr> instr := mem_rdata fetch, state := DECODE \<rparr>"
    by (rule fetch_ready [OF s1(1) assms(5)])
  have s2: "state ?s2 = DECODE" "instr ?s2 = mem_rdata fetch" "rf ?s2 = regfile_step (rf s) ?w"
    by (simp_all add: s2eq s1(2))
  have opc2: "f_opcode (instr ?s2) = 0xC" and fn2: "f_func (instr ?s2) = 0xB"
    using assms(6,7) by (simp_all only: s2(2))
  let ?s3 = "cpu_step ?s2 ib"
  have s3eq: "?s3 = ?s2 \<lparr> state := EXECUTE \<rparr>"
    by (rule decode_step [OF s2(1) dec_exx(3) [OF opc2 fn2]])
  have s3: "state ?s3 = EXECUTE" "instr ?s3 = mem_rdata fetch" "rf ?s3 = regfile_step (rf s) ?w"
    by (simp_all add: s3eq s2)
  have opc3: "f_opcode (instr ?s3) = 0xC" and fn3: "f_func (instr ?s3) = 0xB"
    using assms(6,7) by (simp_all only: s3(2))
  have "rf (cpu_step ?s3 ic) = regfile_step (rf ?s3) ?w"
    by (simp add: exx_exec [OF s3(1) opc3 fn3])
  also have "\<dots> = rf s" by (simp only: s3(3) exx_twice)
  finally have "rf (cpu_step ?s3 ic) = rf s" .
  moreover have "cpu_run s (ia # stalls @ [fetch, ib, ic]) = cpu_step ?s3 ic"
    by (simp add: cpu_run_append run1)
  ultimately show ?thesis by simp
qed

text \<open>
  Claim C7. EXX is involutive. The EXECUTE cycle of EXX (opcode 0xC, func 0xB)
  exchanges R[4..11] with the alternate bank in one step, R[j + 4] with R'[j] for every
  j in 0..7, and leaves the other registers as they were. Two consecutive EXX
  instructions (the first in EXECUTE, then any number of stalled fetch cycles, the
  fetch of the second EXX, its DECODE and its EXECUTE) leave all sixteen registers and
  the alternate bank as they were before; so do two EXX pulses on the register file.
\<close>

theorem exx_involutive:
  assumes "state s = EXECUTE" "f_opcode (instr s) = 0xC" "f_func (instr s) = 0xB"
    and "\<forall>i\<in>set stalls. \<not> mem_ready i"
    and "mem_ready fetch" "f_opcode (mem_rdata fetch) = 0xC" "f_func (mem_rdata fetch) = 0xB"
  shows "(\<forall>j. regs (rf (cpu_step s ia)) (ucast j + 4) = regs_alt (rf s) j
             \<and> regs_alt (rf (cpu_step s ia)) j = regs (rf s) (ucast j + 4))
       \<and> (\<forall>x. \<not> in_bank x \<longrightarrow> regs (rf (cpu_step s ia)) x = regs (rf s) x)
       \<and> rf (cpu_run s (ia # stalls @ [fetch, ib, ic])) = rf s
       \<and> regfile_run r [Exx, Exx] = r"
proof -
  have "rf (cpu_step s ia) =
      \<lparr> regs = (\<lambda>x. if in_bank x then regs_alt (rf s) (ucast (x - 4)) else regs (rf s) x),
        regs_alt = (\<lambda>j. regs (rf s) (ucast j + 4)) \<rparr>"
    by (simp add: exx_exec [OF assms(1-3)] exx_pulse)
  then have "\<forall>j. regs (rf (cpu_step s ia)) (ucast j + 4) = regs_alt (rf s) j
             \<and> regs_alt (rf (cpu_step s ia)) j = regs (rf s) (ucast j + 4)"
    and "\<forall>x. \<not> in_bank x \<longrightarrow> regs (rf (cpu_step s ia)) x = regs (rf s) x"
    by (simp_all add: bank_in bank_forth)
  moreover have "regfile_run r [Exx, Exx] = r" by (simp add: exx_twice)
  ultimately show ?thesis using exx_program [OF assms] by simp
qed

theorem exx_involutive_witness:
  "state (exec_state 0xC00B ((\<lambda>_. 0)(4 := 0x0004))) = EXECUTE
   \<and> f_opcode (instr (exec_state 0xC00B ((\<lambda>_. 0)(4 := 0x0004)))) = 0xC
   \<and> f_func (instr (exec_state 0xC00B ((\<lambda>_. 0)(4 := 0x0004)))) = 0xB
   \<and> \<not> mem_ready idle_in
   \<and> mem_ready (fetch_in 0xC00B)
   \<and> f_opcode (mem_rdata (fetch_in 0xC00B)) = 0xC
   \<and> f_func (mem_rdata (fetch_in 0xC00B)) = 0xB
   \<and> regs_alt (rf (cpu_step (exec_state 0xC00B ((\<lambda>_. 0)(4 := 0x0004))) idle_in)) 0 = 0x0004
   \<and> regs (rf (cpu_step (exec_state 0xC00B ((\<lambda>_. 0)(4 := 0x0004))) idle_in)) 4 = 0
   \<and> rf (cpu_run (exec_state 0xC00B ((\<lambda>_. 0)(4 := 0x0004)))
           [idle_in, idle_in, fetch_in 0xC00B, idle_in, idle_in])
       = rf (exec_state 0xC00B ((\<lambda>_. 0)(4 := 0x0004)))"
proof -
  let ?s = "exec_state 0xC00B ((\<lambda>_. 0)(4 := 0x0004))"
  have h: "state ?s = EXECUTE" "f_opcode (instr ?s) = 0xC" "f_func (instr ?s) = 0xB"
    "\<forall>i\<in>set [idle_in]. \<not> mem_ready i"
    "mem_ready (fetch_in 0xC00B)" "f_opcode (mem_rdata (fetch_in 0xC00B)) = 0xC"
    "f_func (mem_rdata (fetch_in 0xC00B)) = 0xB"
    by (simp_all add: exec_state_def idle_in_def fetch_in_def f_opcode_def f_func_def)
  note t = exx_involutive [OF h, where ia = idle_in and ib = idle_in and ic = idle_in
      and r = "rf ?s"]
  from t have "regs_alt (rf (cpu_step ?s idle_in)) 0 = regs (rf ?s) (ucast (0::u3) + 4)"
    by blast
  moreover from t
  have "regs (rf (cpu_step ?s idle_in)) (ucast (0::u3) + 4) = regs_alt (rf ?s) 0"
    by blast
  moreover from t
  have "rf (cpu_run ?s (idle_in # [idle_in] @ [fetch_in 0xC00B, idle_in, idle_in])) = rf ?s"
    by blast
  ultimately show ?thesis using h by (simp add: exec_state_def)
qed

end
